theory Spec2Isabelle
  imports Main "HOL-Library.Sublist"
begin

section \<open>Python values used by the two scripts\<close>

text \<open>
  A Python \<open>str\<close> is a sequence of Unicode code points. Literals of the scripts are
  ASCII; \<open>py\<close> turns an ASCII literal into its code points. The process environment
  \<open>os.environ\<close> is a dictionary from names to values: \<open>os.environ.get(k)\<close> is
  \<open>environ k\<close> (\<open>None\<close> when the variable is unset).
\<close>

type_synonym py_str = "nat list"

definition py :: "string \<Rightarrow> py_str" where
  "py s = map of_char s"

type_synonym environ = "py_str \<rightharpoonup> py_str"

text \<open>\<open>os.environ.get(key, default)\<close>.\<close>

definition environ_get :: "environ \<Rightarrow> py_str \<Rightarrow> py_str \<Rightarrow> py_str" where
  "environ_get environ key dflt = (case environ key of None \<Rightarrow> dflt | Some v \<Rightarrow> v)"

text \<open>
  The truth value of an \<open>Optional[str]\<close>: \<open>None\<close> and the empty string are false,
  every other string is true.
\<close>

fun truthy :: "py_str option \<Rightarrow> bool" where
  "truthy None = False"
| "truthy (Some s) = (s \<noteq> [])"

text \<open>
  \<open>str.strip()\<close> without argument removes leading and trailing whitespace; the
  whitespace code points are those of CPython's Unicode whitespace table.
\<close>

definition isspace :: "nat \<Rightarrow> bool" where
  "isspace c \<longleftrightarrow>
     (0x09 \<le> c \<and> c \<le> 0x0D) \<or> (0x1C \<le> c \<and> c \<le> 0x20) \<or> c = 0x85 \<or> c = 0xA0 \<or>
     c = 0x1680 \<or> (0x2000 \<le> c \<and> c \<le> 0x200A) \<or> c = 0x2028 \<or> c = 0x2029 \<or>
     c = 0x202F \<or> c = 0x205F \<or> c = 0x3000"

definition strip :: "py_str \<Rightarrow> py_str" where
  "strip s = rev (dropWhile isspace (rev (dropWhile isspace s)))"

section \<open>Config Emitter: \<open>jupyter_ai_config.py\<close>\<close>

text \<open>
  The script assigns three traits of the section \<open>c.AiExtension\<close> of the configuration
  object that the host hands over with \<open>get_config()\<close>. The section is a record with
  these three traits; whatever else the host keeps in it is the record's extension and is
  left as it was.
\<close>

record AiExtension =
  default_language_model :: py_str
  enable_chat :: bool
  enable_code_generation :: bool

definition jupyter_ai_config ::
  "environ \<Rightarrow> 'a AiExtension_scheme \<Rightarrow> 'a AiExtension_scheme" where
  "jupyter_ai_config environ c =
     c\<lparr>default_language_model :=
          environ_get environ (py ''JUPYTER_AI_DEFAULT_MODEL'') (py ''openai-chat:gpt-3.5-turbo''),
       enable_chat := True,
       enable_code_generation := True\<rparr>"

section \<open>Model Fetcher CLI: \<open>download_model.py\<close>\<close>

text \<open>
  The keyword arguments of the one call \<open>snapshot_download(repo_id=..., local_dir=...,
  token=..., ignore_patterns=[...])\<close>.
\<close>

record download_request =
  repo_id :: py_str
  local_dir :: py_str
  token :: "py_str option"
  ignore_patterns :: "py_str list"

text \<open>
  A raised Python exception \<open>e\<close>, as far as the script looks at it: whether
  \<open>isinstance(e, Exception)\<close> holds (it does not for \<open>KeyboardInterrupt\<close>,
  \<open>SystemExit\<close> and \<open>GeneratorExit\<close>, which derive from \<open>BaseException\<close> only),
  and the text \<open>str(e)\<close> that the f-string \<open>{e}\<close> prints.
\<close>

datatype py_exc = PyExc (isinstance_Exception: bool) (str_of: py_str)

text \<open>
  The external transfer mechanism is a parameter of the script's model: what the call
  does for a request is either to return (its return value is discarded) or to raise.
\<close>

datatype transfer_outcome = Returns | Raises py_exc

text \<open>
  How a run ends: the process exits with a status (\<open>sys.exit(n)\<close>, or status 0 when
  \<open>main()\<close> returns and the script falls off its end), or an exception leaves
  \<open>main\<close> uncaught. What the interpreter then does with the uncaught exception is not
  the script's doing and is not part of the model.
\<close>

datatype proc_end = Exited int | Propagated py_exc

text \<open>
  What the script does to the outside: the lines it prints to standard output and to the
  error stream (each \<open>print\<close> is one line), and its calls of the transfer mechanism,
  in order.
\<close>

record effects =
  stdout :: "py_str list"
  stderr :: "py_str list"
  calls :: "download_request list"

definition print_out :: "py_str \<Rightarrow> effects \<Rightarrow> effects" where
  "print_out line w = w\<lparr>stdout := stdout w @ [line]\<rparr>"

definition print_err :: "py_str \<Rightarrow> effects \<Rightarrow> effects" where
  "print_err line w = w\<lparr>stderr := stderr w @ [line]\<rparr>"

definition call_transfer :: "download_request \<Rightarrow> effects \<Rightarrow> effects" where
  "call_transfer req w = w\<lparr>calls := calls w @ [req]\<rparr>"

definition start :: effects where
  "start = \<lparr>stdout = [], stderr = [], calls = []\<rparr>"

text \<open>The list literal passed as \<open>ignore_patterns\<close>; the \<open>"*.bin"\<close> entry of the
  source is inside a comment and so is not an element.\<close>

definition fixed_ignore_patterns :: "py_str list" where
  "fixed_ignore_patterns =
     [py ''*.md'', py ''*.txt'', py ''.gitattributes'', py ''original/*'',
      py ''*.msgpack'', py ''*.h5'']"

text \<open>
  Lines 16 and 17: the usage error. Nothing has been printed before it.
\<close>

definition usage_error :: "proc_end \<times> effects" where
  "usage_error =
     (Exited 1, print_err (py ''ERROR: MODEL_ID environment variable is required'') start)"

text \<open>
  \<open>main()\<close>, statement by statement. The test \<open>not model_id\<close> holds for an unset
  variable (\<open>None\<close>) and for the empty string. The \<open>try\<close> block encloses the call and
  the success message; \<open>except Exception\<close> handles exactly the exceptions that are
  instances of \<open>Exception\<close>, any other propagates.
\<close>

definition main ::
  "environ \<Rightarrow> (download_request \<Rightarrow> transfer_outcome) \<Rightarrow> proc_end \<times> effects" where
  "main environ snapshot_download =
     (case environ (py ''MODEL_ID'') of
        None \<Rightarrow> usage_error
      | Some model_id \<Rightarrow>
          if model_id = [] then usage_error
          else
            let hf_token = (case environ (py ''HF_TOKEN'') of
                              None \<Rightarrow> None
                            | Some t \<Rightarrow> if strip t = [] then None else Some t);
                output_dir = environ_get environ (py ''OUTPUT_DIR'') (py ''/models'');
                w = print_out (py ''Downloading model: '' @ model_id) start;
                w = print_out (py ''Output directory: '' @ output_dir) w;
                w = print_out (py ''Using HF token: '' @
                      (if truthy hf_token then py ''Yes''
                       else py ''No (public models only)'')) w;
                req = \<lparr>repo_id = model_id, local_dir = output_dir, token = hf_token,
                       ignore_patterns = fixed_ignore_patterns\<rparr>;
                w = call_transfer req w
            in (case snapshot_download req of
                  Returns \<Rightarrow>
                    (Exited 0,
                     print_out (py ''Successfully downloaded model to '' @ output_dir) w)
                | Raises e \<Rightarrow>
                    if isinstance_Exception e then
                      (Exited 1,
                       print_err (py ''ERROR: Failed to download model: '' @ str_of e) w)
                    else (Propagated e, w)))"

section \<open>The exclusion patterns, as the transfer mechanism reads them\<close>

text \<open>
  The script only hands the pattern list over; which files a pattern excludes is decided by
  the transfer mechanism, which tests every path of the repository against every pattern
  with Python's \<open>fnmatch\<close>: \<open>*\<close> stands for any run of characters (\<open>/\<close> included),
  \<open>?\<close> for any one character, every other character for itself. Bracket expressions
  are left out here; none of the script's patterns has one.
\<close>

definition star :: nat where
  "star = of_char CHR ''*''"

definition qmark :: nat where
  "qmark = of_char CHR ''?''"

fun fnmatch :: "py_str \<Rightarrow> py_str \<Rightarrow> bool" where
  "fnmatch [] [] = True"
| "fnmatch (c # cs) [] = False"
| "fnmatch [] (p # ps) = (p = star \<and> fnmatch [] ps)"
| "fnmatch (c # cs) (p # ps) =
     (if p = star then fnmatch (c # cs) ps \<or> fnmatch cs (p # ps)
      else (p = qmark \<or> p = c) \<and> fnmatch cs ps)"

definition ignored :: "py_str list \<Rightarrow> py_str \<Rightarrow> bool" where
  "ignored pats path = list_ex (fnmatch path) pats"

definition literal :: "py_str \<Rightarrow> bool" where
  "literal p \<longleftrightarrow> star \<notin> set p \<and> qmark \<notin> set p"

section \<open>Facts about the Python values\<close>

lemma py_eq_iff: "py a = py b \<longleftrightarrow> a = b"
  unfolding py_def by (rule inj_map_eq_map [OF inj_of_char])

lemma py_append: "py a @ py b = py (a @ b)"
  by (simp add: py_def)

lemma strip_Nil: "strip [] = []"
  by (simp add: strip_def)

lemma strip_all_space: "list_all isspace t \<Longrightarrow> strip t = []"
proof -
  assume "list_all isspace t"
  then have h: "dropWhile isspace t = []"
    by (simp only: dropWhile_eq_Nil_conv list_all_iff)
  show ?thesis
    unfolding strip_def h by simp
qed

section \<open>Facts about the pattern matching\<close>

lemma fnmatch_literal: "literal p \<Longrightarrow> fnmatch s p \<longleftrightarrow> s = p"
  by (induction s p rule: fnmatch.induct) (auto simp: literal_def)

lemma fnmatch_star_literal: "literal p \<Longrightarrow> fnmatch s (star # p) \<longleftrightarrow> suffix p s"
proof (induction s)
  case Nil
  then show ?case by (cases p) (auto simp: literal_def)
next
  case (Cons c cs)
  then show ?case by (auto simp: fnmatch_literal suffix_Cons)
qed

lemma fnmatch_star: "fnmatch s [star]"
  by (induction s) auto

lemma fnmatch_literal_star: "literal p \<Longrightarrow> fnmatch s (p @ [star]) \<longleftrightarrow> prefix p s"
proof (induction p arbitrary: s)
  case Nil
  then show ?case by (simp add: fnmatch_star)
next
  case (Cons a p)
  then show ?case by (cases s) (auto simp: literal_def)
qed

lemma ignored_fixed:
  "ignored fixed_ignore_patterns path \<longleftrightarrow>
     suffix (py ''.md'') path \<or> suffix (py ''.txt'') path \<or> path = py ''.gitattributes'' \<or>
     prefix (py ''original/'') path \<or> suffix (py ''.msgpack'') path \<or>
     suffix (py ''.h5'') path"
proof -
  have lit: "literal (py ''.md'')" "literal (py ''.txt'')" "literal (py ''.gitattributes'')"
    "literal (py ''original/'')" "literal (py ''.msgpack'')" "literal (py ''.h5'')"
    by (simp_all add: literal_def py_def star_def qmark_def)
  have pats: "py ''*.md'' = star # py ''.md''"
    "py ''*.txt'' = star # py ''.txt''"
    "py ''original/*'' = py ''original/'' @ [star]"
    "py ''*.msgpack'' = star # py ''.msgpack''"
    "py ''*.h5'' = star # py ''.h5''"
    by (simp_all add: py_def star_def)
  show ?thesis
    unfolding ignored_def fixed_ignore_patterns_def pats
    by (simp add: fnmatch_star_literal fnmatch_literal_star fnmatch_literal lit)
qed

section \<open>Model Fetcher CLI: the two paths through \<open>main\<close>\<close>

lemma main_usage:
  "environ (py ''MODEL_ID'') = None \<or> environ (py ''MODEL_ID'') = Some [] \<Longrightarrow>
   main environ sd =
     (Exited 1,
      \<lparr>stdout = [], stderr = [py ''ERROR: MODEL_ID environment variable is required''],
       calls = []\<rparr>)"
  by (auto simp: main_def usage_error_def print_err_def start_def)

lemma main_calls:
  "environ (py ''MODEL_ID'') = Some m \<Longrightarrow> m \<noteq> [] \<Longrightarrow>
   calls (snd (main environ sd)) =
     [\<lparr>repo_id = m,
       local_dir = environ_get environ (py ''OUTPUT_DIR'') (py ''/models''),
       token = (case environ (py ''HF_TOKEN'') of
                  None \<Rightarrow> None
                | Some t \<Rightarrow> if strip t = [] then None else Some t),
       ignore_patterns = fixed_ignore_patterns\<rparr>]"
  by (simp add: main_def Let_def call_transfer_def print_out_def print_err_def start_def
      split: transfer_outcome.split)

lemma main_stdout_status:
  "environ (py ''MODEL_ID'') = Some m \<Longrightarrow> m \<noteq> [] \<Longrightarrow>
   take 3 (stdout (snd (main environ sd))) =
     [py ''Downloading model: '' @ m,
      py ''Output directory: '' @ environ_get environ (py ''OUTPUT_DIR'') (py ''/models''),
      py ''Using HF token: '' @
        (if truthy (case environ (py ''HF_TOKEN'') of
                      None \<Rightarrow> None
                    | Some t \<Rightarrow> if strip t = [] then None else Some t)
         then py ''Yes'' else py ''No (public models only)'')]"
  by (simp add: main_def Let_def call_transfer_def print_out_def print_err_def start_def
      split: transfer_outcome.split)

lemma main_called_valid:
  "req \<in> set (calls (snd (main environ sd))) \<Longrightarrow>
   \<exists>m. environ (py ''MODEL_ID'') = Some m \<and> m \<noteq> []"
  by (cases "environ (py ''MODEL_ID'')")
     (auto simp: main_def usage_error_def print_err_def start_def split: if_splits)

lemma main_returns:
  "environ (py ''MODEL_ID'') = Some m \<Longrightarrow> m \<noteq> [] \<Longrightarrow>
   req \<in> set (calls (snd (main environ sd))) \<Longrightarrow> sd req = Returns \<Longrightarrow>
   main environ sd =
     (Exited 0,
      \<lparr>stdout = [py ''Downloading model: '' @ repo_id req,
                 py ''Output directory: '' @ local_dir req,
                 py ''Using HF token: '' @
                   (if truthy (token req) then py ''Yes'' else py ''No (public models only)''),
                 py ''Successfully downloaded model to '' @ local_dir req],
       stderr = [], calls = [req]\<rparr>)"
  by (simp add: main_calls)
     (simp add: main_def Let_def call_transfer_def print_out_def start_def)

lemma main_raises:
  "environ (py ''MODEL_ID'') = Some m \<Longrightarrow> m \<noteq> [] \<Longrightarrow>
   req \<in> set (calls (snd (main environ sd))) \<Longrightarrow> sd req = Raises e \<Longrightarrow>
   main environ sd =
     (if isinstance_Exception e then Exited 1 else Propagated e,
      \<lparr>stdout = [py ''Downloading model: '' @ repo_id req,
                 py ''Output directory: '' @ local_dir req,
                 py ''Using HF token: '' @
                   (if truthy (token req) then py ''Yes'' else py ''No (public models only)'')],
       stderr = (if isinstance_Exception e
                 then [py ''ERROR: Failed to download model: '' @ str_of e] else []),
       calls = [req]\<rparr>)"
  by (simp add: main_calls)
     (simp add: main_def Let_def call_transfer_def print_out_def print_err_def start_def)

section \<open>Config Emitter: the settings after the script has run\<close>

text \<open>
  C5. The default language model is the value of \<open>JUPYTER_AI_DEFAULT_MODEL\<close>, unchanged,
  when the variable is set, and the literal \<open>openai-chat:gpt-3.5-turbo\<close> when it is
  unset.
\<close>

theorem C5_default_language_model:
  "(environ (py ''JUPYTER_AI_DEFAULT_MODEL'') = Some v \<longrightarrow>
      default_language_model (jupyter_ai_config environ c) = v) \<and>
   (environ (py ''JUPYTER_AI_DEFAULT_MODEL'') = None \<longrightarrow>
      default_language_model (jupyter_ai_config environ c) = py ''openai-chat:gpt-3.5-turbo'')"
  by (simp add: jupyter_ai_config_def environ_get_def)

theorem C5_default_language_model_witness:
  "[py ''JUPYTER_AI_DEFAULT_MODEL'' \<mapsto> py ''openai-chat:llama-3''] (py ''JUPYTER_AI_DEFAULT_MODEL'')
     = Some (py ''openai-chat:llama-3'') \<and>
   default_language_model
     (jupyter_ai_config [py ''JUPYTER_AI_DEFAULT_MODEL'' \<mapsto> py ''openai-chat:llama-3'']
        \<lparr>default_language_model = [], enable_chat = False, enable_code_generation = False\<rparr>)
     = py ''openai-chat:llama-3'' \<and>
   (Map.empty :: environ) (py ''JUPYTER_AI_DEFAULT_MODEL'') = None \<and>
   default_language_model
     (jupyter_ai_config Map.empty
        \<lparr>default_language_model = [], enable_chat = False, enable_code_generation = False\<rparr>)
     = py ''openai-chat:gpt-3.5-turbo''"
proof -
  let ?c = "\<lparr>default_language_model = [], enable_chat = False, enable_code_generation = False\<rparr>"
  let ?e = "[py ''JUPYTER_AI_DEFAULT_MODEL'' \<mapsto> py ''openai-chat:llama-3'']"
  have set: "?e (py ''JUPYTER_AI_DEFAULT_MODEL'') = Some (py ''openai-chat:llama-3'')"
    by simp
  have unset: "(Map.empty :: environ) (py ''JUPYTER_AI_DEFAULT_MODEL'') = None"
    by simp
  from C5_default_language_model [of ?e "py ''openai-chat:llama-3''" ?c] set
  have a: "default_language_model (jupyter_ai_config ?e ?c) = py ''openai-chat:llama-3''"
    by blast
  from C5_default_language_model [of Map.empty "[]" ?c] unset
  have b: "default_language_model (jupyter_ai_config Map.empty ?c) = py ''openai-chat:gpt-3.5-turbo''"
    by blast
  from set a unset b show ?thesis by blast
qed

text \<open>
  C6. Whatever the environment and whatever the settings were before, both the chat flag
  and the code-generation flag are true afterwards.
\<close>

theorem C6_flags_enabled:
  "enable_chat (jupyter_ai_config environ c) \<and>
   enable_code_generation (jupyter_ai_config environ c)"
  by (simp add: jupyter_ai_config_def)

section \<open>Model Fetcher CLI: validation\<close>

text \<open>
  C1. When \<open>MODEL_ID\<close> is unset or is the empty string, the run exits with status 1,
  the error stream holds the usage message, and the transfer mechanism is not called,
  whatever that mechanism would have done.
\<close>

theorem C1_missing_model_id:
  "environ (py ''MODEL_ID'') = None \<or> environ (py ''MODEL_ID'') = Some [] \<Longrightarrow>
   fst (main environ sd) = Exited 1 \<and>
   stderr (snd (main environ sd)) = [py ''ERROR: MODEL_ID environment variable is required''] \<and>
   calls (snd (main environ sd)) = []"
  by (simp add: main_usage)

theorem C1_missing_model_id_witness:
  "(Map.empty :: environ) (py ''MODEL_ID'') = None \<and>
   fst (main Map.empty (\<lambda>_. Returns)) = Exited 1 \<and>
   stderr (snd (main Map.empty (\<lambda>_. Returns)))
     = [py ''ERROR: MODEL_ID environment variable is required''] \<and>
   calls (snd (main Map.empty (\<lambda>_. Returns))) = [] \<and>
   [py ''MODEL_ID'' \<mapsto> []] (py ''MODEL_ID'') = Some [] \<and>
   fst (main [py ''MODEL_ID'' \<mapsto> []] (\<lambda>_. Returns)) = Exited 1 \<and>
   stderr (snd (main [py ''MODEL_ID'' \<mapsto> []] (\<lambda>_. Returns)))
     = [py ''ERROR: MODEL_ID environment variable is required''] \<and>
   calls (snd (main [py ''MODEL_ID'' \<mapsto> []] (\<lambda>_. Returns))) = []"
proof -
  have unset: "(Map.empty :: environ) (py ''MODEL_ID'') = None
      \<or> (Map.empty :: environ) (py ''MODEL_ID'') = Some []"
    by simp
  have empty: "[py ''MODEL_ID'' \<mapsto> []] (py ''MODEL_ID'') = None
      \<or> [py ''MODEL_ID'' \<mapsto> []] (py ''MODEL_ID'') = Some []"
    by simp
  show ?thesis
    using C1_missing_model_id [where environ = Map.empty and sd = "\<lambda>_. Returns", OF unset]
      C1_missing_model_id [where environ = "[py ''MODEL_ID'' \<mapsto> []]" and sd = "\<lambda>_. Returns", OF empty]
    by simp
qed

text \<open>
  C10. When \<open>MODEL_ID\<close> is unset or is the empty string, nothing is printed to standard
  output: the usage message on the error stream is all the output of the run.
\<close>

theorem C10_usage_error_silent_stdout:
  "environ (py ''MODEL_ID'') = None \<or> environ (py ''MODEL_ID'') = Some [] \<Longrightarrow>
   stdout (snd (main environ sd)) = [] \<and>
   stderr (snd (main environ sd)) = [py ''ERROR: MODEL_ID environment variable is required'']"
  by (simp add: main_usage)

theorem C10_usage_error_silent_stdout_witness:
  "[py ''MODEL_ID'' \<mapsto> [], py ''HF_TOKEN'' \<mapsto> py ''hf_abc''] (py ''MODEL_ID'') = Some [] \<and>
   stdout (snd (main [py ''MODEL_ID'' \<mapsto> [], py ''HF_TOKEN'' \<mapsto> py ''hf_abc''] (\<lambda>_. Returns)))
     = [] \<and>
   stderr (snd (main [py ''MODEL_ID'' \<mapsto> [], py ''HF_TOKEN'' \<mapsto> py ''hf_abc''] (\<lambda>_. Returns)))
     = [py ''ERROR: MODEL_ID environment variable is required'']"
proof -
  let ?e = "[py ''MODEL_ID'' \<mapsto> [], py ''HF_TOKEN'' \<mapsto> py ''hf_abc'']"
  have v: "?e (py ''MODEL_ID'') = Some []"
    by (simp add: py_eq_iff)
  then have h: "?e (py ''MODEL_ID'') = None \<or> ?e (py ''MODEL_ID'') = Some []"
    by simp
  from v C10_usage_error_silent_stdout [where environ = ?e and sd = "\<lambda>_. Returns", OF h] show ?thesis
    by blast
qed

section \<open>Model Fetcher CLI: the access token and the output directory\<close>

text \<open>
  C7. With a non-empty \<open>MODEL_ID\<close> and \<open>HF_TOKEN\<close> set to the empty string, the one
  call of the transfer mechanism gets \<open>None\<close> as its token, and the whole run is the
  run of the same environment with \<open>HF_TOKEN\<close> unset.
\<close>

theorem C7_empty_token_absent:
  "environ (py ''MODEL_ID'') = Some m \<Longrightarrow> m \<noteq> [] \<Longrightarrow>
   environ (py ''HF_TOKEN'') = Some [] \<Longrightarrow>
   map token (calls (snd (main environ sd))) = [None] \<and>
   main environ sd = main (environ(py ''HF_TOKEN'' := None)) sd"
  by (simp add: main_calls strip_Nil)
     (simp add: main_def environ_get_def py_eq_iff strip_Nil)

theorem C7_empty_token_absent_witness:
  "[py ''MODEL_ID'' \<mapsto> py ''foo/bar'', py ''HF_TOKEN'' \<mapsto> []] (py ''MODEL_ID'')
     = Some (py ''foo/bar'') \<and>
   py ''foo/bar'' \<noteq> [] \<and>
   [py ''MODEL_ID'' \<mapsto> py ''foo/bar'', py ''HF_TOKEN'' \<mapsto> []] (py ''HF_TOKEN'') = Some [] \<and>
   map token
     (calls (snd (main [py ''MODEL_ID'' \<mapsto> py ''foo/bar'', py ''HF_TOKEN'' \<mapsto> []]
                    (\<lambda>_. Returns)))) = [None]"
proof -
  let ?e = "[py ''MODEL_ID'' \<mapsto> py ''foo/bar'', py ''HF_TOKEN'' \<mapsto> []]"
  have a: "?e (py ''MODEL_ID'') = Some (py ''foo/bar'')"
    by (simp add: py_eq_iff)
  have b: "py ''foo/bar'' \<noteq> []"
    by (simp add: py_def)
  have c: "?e (py ''HF_TOKEN'') = Some []"
    by simp
  from a b c C7_empty_token_absent [where environ = ?e and sd = "\<lambda>_. Returns", OF a b c] show ?thesis
    by blast
qed

text \<open>
  C9. With a non-empty \<open>MODEL_ID\<close> and \<open>HF_TOKEN\<close> set to a non-empty string of
  whitespace characters only, the one call of the transfer mechanism gets \<open>None\<close> as
  its token, and the whole run is the run of the same environment with \<open>HF_TOKEN\<close>
  unset.
\<close>

theorem C9_blank_token_absent:
  "environ (py ''MODEL_ID'') = Some m \<Longrightarrow> m \<noteq> [] \<Longrightarrow>
   environ (py ''HF_TOKEN'') = Some t \<Longrightarrow> t \<noteq> [] \<Longrightarrow> list_all isspace t \<Longrightarrow>
   map token (calls (snd (main environ sd))) = [None] \<and>
   main environ sd = main (environ(py ''HF_TOKEN'' := None)) sd"
  by (simp add: main_calls strip_all_space)
     (simp add: main_def environ_get_def py_eq_iff strip_all_space)

theorem C9_blank_token_absent_witness:
  "[py ''MODEL_ID'' \<mapsto> py ''foo/bar'', py ''HF_TOKEN'' \<mapsto> py ''   ''] (py ''MODEL_ID'')
     = Some (py ''foo/bar'') \<and>
   py ''foo/bar'' \<noteq> [] \<and>
   [py ''MODEL_ID'' \<mapsto> py ''foo/bar'', py ''HF_TOKEN'' \<mapsto> py ''   ''] (py ''HF_TOKEN'')
     = Some (py ''   '') \<and>
   py ''   '' \<noteq> [] \<and> list_all isspace (py ''   '') \<and>
   map token
     (calls (snd (main [py ''MODEL_ID'' \<mapsto> py ''foo/bar'', py ''HF_TOKEN'' \<mapsto> py ''   '']
                    (\<lambda>_. Returns)))) = [None]"
proof -
  let ?e = "[py ''MODEL_ID'' \<mapsto> py ''foo/bar'', py ''HF_TOKEN'' \<mapsto> py ''   '']"
  have a: "?e (py ''MODEL_ID'') = Some (py ''foo/bar'')"
    by (simp add: py_eq_iff)
  have b: "py ''foo/bar'' \<noteq> []"
    by (simp add: py_def)
  have c: "?e (py ''HF_TOKEN'') = Some (py ''   '')"
    by simp
  have d: "py ''   '' \<noteq> []"
    by (simp add: py_def)
  have e: "list_all isspace (py ''   '')"
    by (simp add: py_def isspace_def)
  from a b c d e C9_blank_token_absent [where environ = ?e and sd = "\<lambda>_. Returns", OF a b c d e] show ?thesis
    by blast
qed

text \<open>
  C8. With a non-empty \<open>MODEL_ID\<close> and \<open>OUTPUT_DIR\<close> unset, the output directory is
  \<open>/models\<close>: it is the \<open>local_dir\<close> of the one call of the transfer mechanism, and the
  second status line on standard output is \<open>Output directory: /models\<close>.
\<close>

theorem C8_default_output_dir:
  "environ (py ''MODEL_ID'') = Some m \<Longrightarrow> m \<noteq> [] \<Longrightarrow>
   environ (py ''OUTPUT_DIR'') = None \<Longrightarrow>
   map local_dir (calls (snd (main environ sd))) = [py ''/models''] \<and>
   stdout (snd (main environ sd)) ! 1 = py ''Output directory: /models''"
proof -
  assume valid: "environ (py ''MODEL_ID'') = Some m" "m \<noteq> []"
    and unset: "environ (py ''OUTPUT_DIR'') = None"
  have "stdout (snd (main environ sd)) ! 1 = take 3 (stdout (snd (main environ sd))) ! 1"
    by simp
  also have "\<dots> = py ''Output directory: /models''"
    by (simp add: main_stdout_status [where environ = environ, OF valid] unset environ_get_def py_append)
  finally have line: "stdout (snd (main environ sd)) ! 1 = py ''Output directory: /models''" .
  have "map local_dir (calls (snd (main environ sd))) = [py ''/models'']"
    by (simp add: main_calls [where environ = environ, OF valid] unset environ_get_def)
  with line show ?thesis
    by simp
qed

theorem C8_default_output_dir_witness:
  "[py ''MODEL_ID'' \<mapsto> py ''foo/bar''] (py ''MODEL_ID'') = Some (py ''foo/bar'') \<and>
   py ''foo/bar'' \<noteq> [] \<and>
   [py ''MODEL_ID'' \<mapsto> py ''foo/bar''] (py ''OUTPUT_DIR'') = None \<and>
   map local_dir (calls (snd (main [py ''MODEL_ID'' \<mapsto> py ''foo/bar''] (\<lambda>_. Returns))))
     = [py ''/models''] \<and>
   stdout (snd (main [py ''MODEL_ID'' \<mapsto> py ''foo/bar''] (\<lambda>_. Returns))) ! 1
     = py ''Output directory: /models''"
proof -
  let ?e = "[py ''MODEL_ID'' \<mapsto> py ''foo/bar'']"
  have a: "?e (py ''MODEL_ID'') = Some (py ''foo/bar'')"
    by simp
  have b: "py ''foo/bar'' \<noteq> []"
    by (simp add: py_def)
  have c: "?e (py ''OUTPUT_DIR'') = None"
    by (simp add: py_eq_iff)
  from a b c C8_default_output_dir [where environ = ?e and sd = "\<lambda>_. Returns", OF a b c]
  show ?thesis
    by blast
qed

section \<open>Model Fetcher CLI: the transfer\<close>

text \<open>
  C4. When \<open>MODEL_ID\<close> is non-empty and the call of the transfer mechanism returns, the
  run exits with status 0 and the last line on standard output is the confirmation, which
  ends with the output directory (\<open>OUTPUT_DIR\<close>, or \<open>/models\<close> when that is unset);
  nothing is written to the error stream.
\<close>

theorem C4_success:
  "environ (py ''MODEL_ID'') = Some m \<Longrightarrow> m \<noteq> [] \<Longrightarrow>
   req \<in> set (calls (snd (main environ sd))) \<Longrightarrow> sd req = Returns \<Longrightarrow>
   fst (main environ sd) = Exited 0 \<and>
   last (stdout (snd (main environ sd))) =
     py ''Successfully downloaded model to '' @
       environ_get environ (py ''OUTPUT_DIR'') (py ''/models'') \<and>
   stderr (snd (main environ sd)) = []"
proof -
  assume valid: "environ (py ''MODEL_ID'') = Some m" "m \<noteq> []"
    and called: "req \<in> set (calls (snd (main environ sd)))"
    and returns: "sd req = Returns"
  from called have dir: "local_dir req = environ_get environ (py ''OUTPUT_DIR'') (py ''/models'')"
    by (simp add: main_calls [where environ = environ, OF valid])
  show ?thesis
    by (simp add: main_returns [where environ = environ, OF valid called returns] dir)
qed

theorem C4_success_witness:
  "[py ''MODEL_ID'' \<mapsto> py ''foo/bar'', py ''OUTPUT_DIR'' \<mapsto> py ''/out''] (py ''MODEL_ID'')
     = Some (py ''foo/bar'') \<and>
   py ''foo/bar'' \<noteq> [] \<and>
   \<lparr>repo_id = py ''foo/bar'', local_dir = py ''/out'', token = None,
     ignore_patterns = fixed_ignore_patterns\<rparr>
     \<in> set (calls (snd (main [py ''MODEL_ID'' \<mapsto> py ''foo/bar'', py ''OUTPUT_DIR'' \<mapsto> py ''/out'']
                         (\<lambda>_. Returns)))) \<and>
   fst (main [py ''MODEL_ID'' \<mapsto> py ''foo/bar'', py ''OUTPUT_DIR'' \<mapsto> py ''/out'']
          (\<lambda>_. Returns)) = Exited 0 \<and>
   last (stdout (snd (main [py ''MODEL_ID'' \<mapsto> py ''foo/bar'', py ''OUTPUT_DIR'' \<mapsto> py ''/out'']
                       (\<lambda>_. Returns))))
     = py ''Successfully downloaded model to /out''"
proof -
  let ?e = "[py ''MODEL_ID'' \<mapsto> py ''foo/bar'', py ''OUTPUT_DIR'' \<mapsto> py ''/out'']"
  let ?req = "\<lparr>repo_id = py ''foo/bar'', local_dir = py ''/out'', token = None,
                ignore_patterns = fixed_ignore_patterns\<rparr>"
  have a: "?e (py ''MODEL_ID'') = Some (py ''foo/bar'')"
    by (simp add: py_eq_iff)
  have b: "py ''foo/bar'' \<noteq> []"
    by (simp add: py_def)
  have c: "?req \<in> set (calls (snd (main ?e (\<lambda>_. Returns))))"
    by (simp add: main_calls [where environ = ?e, OF a b] environ_get_def py_eq_iff)
  have d: "(\<lambda>_. Returns) ?req = Returns"
    by simp
  have dir: "environ_get ?e (py ''OUTPUT_DIR'') (py ''/models'') = py ''/out''"
    by (simp add: environ_get_def)
  from a b c
    C4_success [where environ = ?e and sd = "\<lambda>_. Returns" and req = ?req, OF a b c d]
  show ?thesis
    by (simp add: dir py_append)
qed

text \<open>
  C2, as the code has it. When the call of the transfer mechanism raises an exception that
  is an instance of \<open>Exception\<close>, the run exits with status 1, the error stream holds
  one line ending with the exception's text, that call is the only one made, and standard
  output holds the three status lines and no more. (An exception outside \<open>Exception\<close>
  is not handled: see the counterexample.)
\<close>

theorem C2_transfer_failure:
  "req \<in> set (calls (snd (main environ sd))) \<Longrightarrow> sd req = Raises e \<Longrightarrow>
   isinstance_Exception e \<Longrightarrow>
   fst (main environ sd) = Exited 1 \<and>
   stderr (snd (main environ sd)) = [py ''ERROR: Failed to download model: '' @ str_of e] \<and>
   calls (snd (main environ sd)) = [req] \<and>
   stdout (snd (main environ sd)) =
     [py ''Downloading model: '' @ repo_id req,
      py ''Output directory: '' @ local_dir req,
      py ''Using HF token: '' @
        (if truthy (token req) then py ''Yes'' else py ''No (public models only)'')]"
proof -
  assume called: "req \<in> set (calls (snd (main environ sd)))"
    and raises: "sd req = Raises e"
    and inst: "isinstance_Exception e"
  from main_called_valid [where environ = environ, OF called]
  obtain m where valid: "environ (py ''MODEL_ID'') = Some m" "m \<noteq> []"
    by blast
  show ?thesis
    by (simp add: main_raises [where environ = environ, OF valid called raises] inst)
qed

theorem C2_transfer_failure_witness:
  "\<lparr>repo_id = py ''foo/bar'', local_dir = py ''/models'', token = None,
     ignore_patterns = fixed_ignore_patterns\<rparr>
     \<in> set (calls (snd (main [py ''MODEL_ID'' \<mapsto> py ''foo/bar'']
                         (\<lambda>_. Raises (PyExc True (py ''404 Not Found'')))))) \<and>
   isinstance_Exception (PyExc True (py ''404 Not Found'')) \<and>
   fst (main [py ''MODEL_ID'' \<mapsto> py ''foo/bar'']
          (\<lambda>_. Raises (PyExc True (py ''404 Not Found'')))) = Exited 1 \<and>
   stderr (snd (main [py ''MODEL_ID'' \<mapsto> py ''foo/bar'']
                 (\<lambda>_. Raises (PyExc True (py ''404 Not Found'')))))
     = [py ''ERROR: Failed to download model: 404 Not Found'']"
proof -
  let ?e = "[py ''MODEL_ID'' \<mapsto> py ''foo/bar'']"
  let ?sd = "\<lambda>_ :: download_request. Raises (PyExc True (py ''404 Not Found''))"
  let ?req = "\<lparr>repo_id = py ''foo/bar'', local_dir = py ''/models'', token = None,
                ignore_patterns = fixed_ignore_patterns\<rparr>"
  have a: "?e (py ''MODEL_ID'') = Some (py ''foo/bar'')"
    by simp
  have b: "py ''foo/bar'' \<noteq> []"
    by (simp add: py_def)
  have c: "?req \<in> set (calls (snd (main ?e ?sd)))"
    by (simp add: main_calls [where environ = ?e, OF a b] environ_get_def py_eq_iff)
  have d: "?sd ?req = Raises (PyExc True (py ''404 Not Found''))"
    by simp
  have i: "isinstance_Exception (PyExc True (py ''404 Not Found''))"
    by simp
  from c i
    C2_transfer_failure [where environ = ?e and sd = ?sd and req = ?req, OF c d i]
  show ?thesis
    by (simp add: py_append)
qed

text \<open>
  C2 as stated fails for an exception that is not an instance of \<open>Exception\<close>, such as
  a \<open>KeyboardInterrupt\<close> (whose text is empty) raised during the transfer: the handler
  does not run, the script writes nothing to the error stream, and the exception leaves
  \<open>main\<close>.
\<close>

theorem C2_uncaught_counterexample:
  "fst (main [py ''MODEL_ID'' \<mapsto> py ''foo/bar''] (\<lambda>_. Raises (PyExc False [])))
     = Propagated (PyExc False []) \<and>
   fst (main [py ''MODEL_ID'' \<mapsto> py ''foo/bar''] (\<lambda>_. Raises (PyExc False [])))
     \<noteq> Exited 1 \<and>
   stderr (snd (main [py ''MODEL_ID'' \<mapsto> py ''foo/bar''] (\<lambda>_. Raises (PyExc False []))))
     = []"
  by (simp add: main_def Let_def py_def call_transfer_def print_out_def start_def)

text \<open>
  C3, as the code has it. When \<open>MODEL_ID\<close> is non-empty, the transfer mechanism is
  called exactly once, and the exclusion list of that call is the fixed six patterns. A
  path is excluded by them exactly when it ends in \<open>.md\<close>, \<open>.txt\<close>, \<open>.msgpack\<close> or
  \<open>.h5\<close>, is \<open>.gitattributes\<close>, or starts with \<open>original/\<close>. No pattern is there
  for \<open>.bin\<close> files.
\<close>

theorem C3_one_call_fixed_patterns:
  "environ (py ''MODEL_ID'') = Some m \<Longrightarrow> m \<noteq> [] \<Longrightarrow>
   map ignore_patterns (calls (snd (main environ sd))) =
     [[py ''*.md'', py ''*.txt'', py ''.gitattributes'', py ''original/*'',
       py ''*.msgpack'', py ''*.h5'']] \<and>
   (ignored [py ''*.md'', py ''*.txt'', py ''.gitattributes'', py ''original/*'',
             py ''*.msgpack'', py ''*.h5''] path \<longleftrightarrow>
      suffix (py ''.md'') path \<or> suffix (py ''.txt'') path \<or> path = py ''.gitattributes'' \<or>
      prefix (py ''original/'') path \<or> suffix (py ''.msgpack'') path \<or>
      suffix (py ''.h5'') path)"
  using ignored_fixed [of path]
  by (simp add: main_calls fixed_ignore_patterns_def)

theorem C3_one_call_fixed_patterns_witness:
  "[py ''MODEL_ID'' \<mapsto> py ''foo/bar''] (py ''MODEL_ID'') = Some (py ''foo/bar'') \<and>
   py ''foo/bar'' \<noteq> [] \<and>
   map ignore_patterns
     (calls (snd (main [py ''MODEL_ID'' \<mapsto> py ''foo/bar''] (\<lambda>_. Returns)))) =
     [[py ''*.md'', py ''*.txt'', py ''.gitattributes'', py ''original/*'',
       py ''*.msgpack'', py ''*.h5'']] \<and>
   ignored [py ''*.md'', py ''*.txt'', py ''.gitattributes'', py ''original/*'',
            py ''*.msgpack'', py ''*.h5''] (py ''model.h5'')"
proof -
  let ?e = "[py ''MODEL_ID'' \<mapsto> py ''foo/bar'']"
  have a: "?e (py ''MODEL_ID'') = Some (py ''foo/bar'')"
    by simp
  have b: "py ''foo/bar'' \<noteq> []"
    by (simp add: py_def)
  have c: "suffix (py ''.h5'') (py ''model.h5'')"
    by (simp add: py_def suffix_def)
  from a b c
    C3_one_call_fixed_patterns [where environ = ?e and sd = "\<lambda>_. Returns"
      and path = "py ''model.h5''", OF a b]
  show ?thesis
    by blast
qed

text \<open>
  C3 as stated fails on the legacy weight format it names: the list passed has no pattern
  for PyTorch \<open>.bin\<close> files (the entry \<open>"*.bin"\<close> is commented out in the source), so
  \<open>pytorch_model.bin\<close> is not excluded from the transfer.
\<close>

theorem C3_bin_not_excluded_counterexample:
  "calls (snd (main [py ''MODEL_ID'' \<mapsto> py ''foo/bar''] (\<lambda>_. Returns))) =
     [\<lparr>repo_id = py ''foo/bar'', local_dir = py ''/models'', token = None,
       ignore_patterns = [py ''*.md'', py ''*.txt'', py ''.gitattributes'', py ''original/*'',
                          py ''*.msgpack'', py ''*.h5'']\<rparr>] \<and>
   py ''*.bin'' \<notin> set [py ''*.md'', py ''*.txt'', py ''.gitattributes'', py ''original/*'',
                         py ''*.msgpack'', py ''*.h5''] \<and>
   \<not> ignored [py ''*.md'', py ''*.txt'', py ''.gitattributes'', py ''original/*'',
               py ''*.msgpack'', py ''*.h5''] (py ''pytorch_model.bin'')"
proof -
  have "calls (snd (main [py ''MODEL_ID'' \<mapsto> py ''foo/bar''] (\<lambda>_. Returns))) =
     [\<lparr>repo_id = py ''foo/bar'', local_dir = py ''/models'', token = None,
       ignore_patterns = fixed_ignore_patterns\<rparr>]"
    by (simp add: main_def Let_def py_eq_iff environ_get_def call_transfer_def print_out_def
        start_def) (simp add: py_def)
  moreover have "py ''*.bin'' \<notin> set fixed_ignore_patterns"
    by (simp add: fixed_ignore_patterns_def py_eq_iff)
  moreover have "\<not> ignored fixed_ignore_patterns (py ''pytorch_model.bin'')"
    by (simp add: ignored_def fixed_ignore_patterns_def py_def star_def qmark_def)
  ultimately show ?thesis
    by (simp add: fixed_ignore_patterns_def)
qed

end
